theory Spec2Isabelle
  imports Main "HOL-Library.Word"
begin

section \<open>The PTY bridge of KoboldOS (Sources/CPty/pty\_bridge.c)\<close>

text \<open>
  The bridge is glue around library calls: every statement of the three functions of
  \<^verbatim>\<open>pty_bridge.c\<close> is a call into libc or the kernel, or a local computation feeding
  one. Each function is therefore embedded as the list of calls it performs, in program
  order, together with what it hands back to its caller. The answers of the operating
  system that the code branches on (what \<^verbatim>\<open>forkpty\<close> returned, whether \<^verbatim>\<open>execl\<close> came
  back, what \<^verbatim>\<open>ioctl\<close> returned) are arguments of the embedding. A separate
  interpreter, \<open>exec_call\<close>, gives every call its effect on the state of a process, and a
  step relation interleaves the calls of several threads.

  C strings are the lists of their bytes before the terminating NUL, \<^verbatim>\<open>int\<close> arguments
  that are cast or printed are 32-bit words read with \<open>sint\<close>, process ids and file
  descriptors (never computed with) are integers.
\<close>

subsection \<open>Data of the C library\<close>

text \<open>\<^verbatim>\<open>struct winsize\<close>: four \<^verbatim>\<open>unsigned short\<close> fields.\<close>

record winsize =
  ws_row :: "16 word"
  ws_col :: "16 word"
  ws_xpixel :: "16 word"
  ws_ypixel :: "16 word"

datatype signal =
    SIGHUP | SIGINT | SIGQUIT | SIGILL | SIGTRAP | SIGABRT | SIGEMT | SIGFPE
  | SIGKILL | SIGBUS | SIGSEGV | SIGSYS | SIGPIPE | SIGALRM | SIGTERM | SIGURG
  | SIGSTOP | SIGTSTP | SIGCONT | SIGCHLD | SIGTTIN | SIGTTOU | SIGIO | SIGXCPU
  | SIGXFSZ | SIGVTALRM | SIGPROF | SIGWINCH | SIGINFO | SIGUSR1 | SIGUSR2

text \<open>
  A signal handler is the default action, ignoring, or a function of the program:
  \<open>Sigchld_handler\<close> is \<^verbatim>\<open>sigchld_handler\<close> of this file, \<open>Host_function n\<close> any other
  function the host application may have installed.
\<close>

datatype handler_fn = Sigchld_handler | Host_function nat

datatype sighandler = SIG_DFL | SIG_IGN | Handler handler_fn

datatype sa_flag =
    SA_ONSTACK | SA_RESTART | SA_RESETHAND | SA_NOCLDSTOP | SA_NODEFER
  | SA_NOCLDWAIT | SA_SIGINFO

text \<open>\<^verbatim>\<open>struct sigaction\<close>; the flag word is the set of the flags or-ed into it.\<close>

record sigaction =
  sa_handler :: sighandler
  sa_mask :: "signal set"
  sa_flags :: "sa_flag set"

text \<open>
  What one call of \<^verbatim>\<open>forkpty\<close> hands back: its return value, and the descriptor it stored
  through its first argument, if it stored one.
\<close>

record forkpty_reply =
  fp_pid :: int
  fp_amaster :: "int option"

text \<open>
  The calls the bridge makes, each with the answer it got where the code reads one.
  \<open>Store_pid a v\<close> is the assignment \<^verbatim>\<open>*child_pid = pid\<close> through the caller's pointer
  \<open>a\<close>; \<open>Underscore_exit\<close> is \<^verbatim>\<open>_exit\<close>, \<open>Libc_exit\<close> is \<^verbatim>\<open>exit\<close> (which the bridge never
  calls).
\<close>

datatype call =
    Pthread_mutex_lock
  | Pthread_mutex_unlock
  | Forkpty winsize forkpty_reply
  | Setenv string string bool
  | Sigaction signal sigaction
  | Execl string "string list" bool
  | Underscore_exit int
  | Libc_exit int
  | Ioctl_TIOCSWINSZ int winsize int
  | Store_pid nat int

text \<open>How a call of a bridge function ends for the process that runs it.\<close>

datatype outcome =
    Returned int
  | Image_replaced
  | Exited int

subsection \<open>Library functions computed inside the bridge\<close>

text \<open>
  \<^verbatim>\<open>strrchr(s, c)\<close>: the suffix of \<open>s\<close> that starts at the last occurrence of \<open>c\<close>, or
  the null pointer.
\<close>

fun strrchr :: "string \<Rightarrow> char \<Rightarrow> string option" where
  "strrchr [] c = None"
| "strrchr (x # xs) c =
     (case strrchr xs c of
        Some r \<Rightarrow> Some r
      | None \<Rightarrow> if x = c then Some (x # xs) else None)"

text \<open>The \<^verbatim>\<open>%d\<close> conversion: decimal digits, with a minus sign below zero.\<close>

definition digit_char :: "nat \<Rightarrow> char" where
  "digit_char d = ''0123456789'' ! d"

function dec_nat :: "nat \<Rightarrow> string" where
  "dec_nat n = (if n < 10 then [digit_char n] else dec_nat (n div 10) @ [digit_char (n mod 10)])"
  by pat_completeness auto
termination
  by (relation "measure id") auto

declare dec_nat.simps [simp del]

definition dec_int :: "int \<Rightarrow> string" where
  "dec_int i = (if i < 0 then CHR ''-'' # dec_nat (nat (- i)) else dec_nat (nat i))"

text \<open>
  \<^verbatim>\<open>snprintf(buf, n, ...)\<close> with the formatted text \<open>s\<close>: the buffer receives at most
  \<open>n - 1\<close> bytes of it, then the NUL.
\<close>

definition snprintf :: "nat \<Rightarrow> string \<Rightarrow> string" where
  "snprintf n s = take (n - 1) s"

subsection \<open>The three functions of the bridge\<close>

text \<open>
  \<^verbatim>\<open>kobold_forkpty(child_pid, shell_path, rows, cols)\<close>, for the answer \<open>fr\<close> of \<^verbatim>\<open>forkpty\<close>
  and, in the child, \<open>exec_ok\<close> telling whether \<^verbatim>\<open>execl\<close> replaced the image.
  The three branches are those of the source: \<^verbatim>\<open>pid < 0\<close>, \<^verbatim>\<open>pid == 0\<close> (the body of
  that branch is \<open>child_branch\<close>), and the parent.
\<close>

definition child_branch :: "string \<Rightarrow> 32 word \<Rightarrow> 32 word \<Rightarrow> bool \<Rightarrow> call list \<times> outcome" where
  "child_branch shell_path rows cols exec_ok =
     (let cols_str = snprintf 32 (dec_int (sint cols));
          rows_str = snprintf 32 (dec_int (sint rows));
          shell_name = (case strrchr shell_path CHR ''/'' of
                          Some s \<Rightarrow> tl s
                        | None \<Rightarrow> shell_path);
          login_arg = snprintf 256 (CHR ''-'' # shell_name);
          sa = \<lparr>sa_handler = SIG_DFL, sa_mask = {}, sa_flags = {}\<rparr>
      in ([Pthread_mutex_unlock,
           Setenv ''TERM'' ''xterm-256color'' True,
           Setenv ''LANG'' ''de_DE.UTF-8'' True,
           Setenv ''COLORTERM'' ''truecolor'' True,
           Setenv ''COLUMNS'' cols_str True,
           Setenv ''LINES'' rows_str True,
           Sigaction SIGINT sa,
           Sigaction SIGQUIT sa,
           Sigaction SIGTSTP sa,
           Sigaction SIGPIPE sa,
           Sigaction SIGCHLD sa,
           Sigaction SIGHUP sa,
           Sigaction SIGTERM sa,
           Execl shell_path [login_arg] exec_ok]
            @ (if exec_ok then [] else [Underscore_exit 127]),
          if exec_ok then Image_replaced else Exited 127))"

definition kobold_forkpty ::
  "forkpty_reply \<Rightarrow> bool \<Rightarrow> nat \<Rightarrow> string \<Rightarrow> 32 word \<Rightarrow> 32 word \<Rightarrow> call list \<times> outcome" where
  "kobold_forkpty fr exec_ok child_pid shell_path rows cols =
     (let ws = \<lparr>ws_row = ucast rows, ws_col = ucast cols, ws_xpixel = 0, ws_ypixel = 0\<rparr>;
          master_fd = (case fp_amaster fr of None \<Rightarrow> - 1 | Some m \<Rightarrow> m);
          pid = fp_pid fr
      in if pid < 0 then
           ([Pthread_mutex_lock, Forkpty ws fr, Pthread_mutex_unlock], Returned (- 1))
         else if pid = 0 then
           ([Pthread_mutex_lock, Forkpty ws fr]
              @ fst (child_branch shell_path rows cols exec_ok),
            snd (child_branch shell_path rows cols exec_ok))
         else
           ([Pthread_mutex_lock, Forkpty ws fr, Store_pid child_pid pid, Pthread_mutex_unlock],
            Returned master_fd))"

text \<open>
  \<^verbatim>\<open>kobold_pty_resize(master_fd, rows, cols)\<close>, for the return value \<open>ioctl_ret\<close> of the
  \<^verbatim>\<open>ioctl\<close>.
\<close>

definition kobold_pty_resize :: "int \<Rightarrow> int \<Rightarrow> 32 word \<Rightarrow> 32 word \<Rightarrow> call list \<times> outcome" where
  "kobold_pty_resize ioctl_ret master_fd rows cols =
     (let ws = \<lparr>ws_row = ucast rows, ws_col = ucast cols, ws_xpixel = 0, ws_ypixel = 0\<rparr>
      in if ioctl_ret < 0 then
           ([Pthread_mutex_lock, Ioctl_TIOCSWINSZ master_fd ws ioctl_ret, Pthread_mutex_unlock],
            Returned (- 1))
         else
           ([Pthread_mutex_lock, Ioctl_TIOCSWINSZ master_fd ws ioctl_ret, Pthread_mutex_unlock],
            Returned 0))"

text \<open>\<^verbatim>\<open>kobold_init_signal_handlers()\<close> returns nothing.\<close>

definition kobold_init_signal_handlers :: "call list" where
  "kobold_init_signal_handlers =
     (let sa = \<lparr>sa_handler = Handler Sigchld_handler, sa_mask = {},
                sa_flags = {SA_RESTART} \<union> {SA_NOCLDSTOP}\<rparr>
      in [Sigaction SIGCHLD sa])"

subsection \<open>What the calls do to a process\<close>

text \<open>
  The state of one process as far as the bridge touches it: the owner of \<^verbatim>\<open>pty_mutex\<close>
  (a thread number, \<open>None\<close> when unlocked), the environment, the signal dispositions,
  the memory behind the caller's \<^verbatim>\<open>pid_t\<close> pointers, the child processes and open
  descriptors, the window size the kernel keeps for a terminal descriptor, the program
  image with its argument vector (\<open>None\<close>: still the host program), and how the process
  ended, if it has (\<open>atexit_ran\<close>: the handlers registered with \<^verbatim>\<open>atexit\<close> were run).
\<close>

record proc =
  pty_mutex :: "nat option"
  environ :: "string \<rightharpoonup> string"
  sigdisp :: "signal \<Rightarrow> sigaction"
  pid_mem :: "nat \<Rightarrow> int"
  children :: "int set"
  open_fds :: "int set"
  tty_size :: "int \<rightharpoonup> winsize"
  image :: "(string \<times> string list) option"
  exit_status :: "int option"
  atexit_ran :: bool

text \<open>
  The effect of one call made by thread \<open>t\<close>, as POSIX documents it. \<open>None\<close> means the
  call does not come back in this state: a thread that locks a held mutex waits, and
  unlocking a mutex the thread does not hold is undefined. \<^verbatim>\<open>forkpty\<close> gives the parent
  a child and a master descriptor of the requested size, leaves the process as it is
  when it fails, and in the child (return value 0) starts with no children;
  \<^verbatim>\<open>sigaction\<close> refuses SIGKILL and SIGSTOP; the size request either installs the whole
  \<^verbatim>\<open>winsize\<close> or, when it fails, nothing; \<^verbatim>\<open>setenv\<close> and \<^verbatim>\<open>sigaction\<close> are taken to
  succeed otherwise (the bridge ignores their return values).
\<close>

fun exec_call :: "nat \<Rightarrow> call \<Rightarrow> proc \<Rightarrow> proc option" where
  "exec_call t Pthread_mutex_lock p =
     (if pty_mutex p = None then Some (p\<lparr>pty_mutex := Some t\<rparr>) else None)"
| "exec_call t Pthread_mutex_unlock p =
     (if pty_mutex p = Some t then Some (p\<lparr>pty_mutex := None\<rparr>) else None)"
| "exec_call t (Forkpty ws fr) p =
     Some (if fp_pid fr < 0 then p
           else if fp_pid fr = 0 then p\<lparr>children := {}\<rparr>
           else (case fp_amaster fr of
                   None \<Rightarrow> p\<lparr>children := insert (fp_pid fr) (children p)\<rparr>
                 | Some m \<Rightarrow> p\<lparr>children := insert (fp_pid fr) (children p),
                                open_fds := insert m (open_fds p),
                                tty_size := (tty_size p)(m \<mapsto> ws)\<rparr>))"
| "exec_call t (Setenv name val overwrite) p =
     Some (if overwrite \<or> environ p name = None
           then p\<lparr>environ := (environ p)(name \<mapsto> val)\<rparr> else p)"
| "exec_call t (Sigaction sig sa) p =
     Some (if sig = SIGKILL \<or> sig = SIGSTOP then p
           else p\<lparr>sigdisp := (sigdisp p)(sig := sa)\<rparr>)"
| "exec_call t (Execl path argv ok) p =
     Some (if ok then p\<lparr>image := Some (path, argv)\<rparr> else p)"
| "exec_call t (Underscore_exit n) p = Some (p\<lparr>exit_status := Some n\<rparr>)"
| "exec_call t (Libc_exit n) p = Some (p\<lparr>exit_status := Some n, atexit_ran := True\<rparr>)"
| "exec_call t (Ioctl_TIOCSWINSZ fd ws r) p =
     Some (if r < 0 then p else p\<lparr>tty_size := (tty_size p)(fd \<mapsto> ws)\<rparr>)"
| "exec_call t (Store_pid a v) p = Some (p\<lparr>pid_mem := (pid_mem p)(a := v)\<rparr>)"

text \<open>Running a list of calls in order on one thread.\<close>

fun run :: "nat \<Rightarrow> call list \<Rightarrow> proc \<Rightarrow> proc option" where
  "run t [] p = Some p"
| "run t (c # cs) p = (case exec_call t c p of None \<Rightarrow> None | Some p' \<Rightarrow> run t cs p')"

text \<open>
  What \<^verbatim>\<open>forkpty\<close> promises about its answer: \<open>-1\<close> and nothing stored when it fails,
  \<open>0\<close> and nothing stored in the child, and in the parent the positive pid of the child
  with a valid (non-negative) master descriptor stored.
\<close>

definition forkpty_contract :: "forkpty_reply \<Rightarrow> bool" where
  "forkpty_contract fr =
     (case fp_amaster fr of
        Some m \<Rightarrow> 0 < fp_pid fr \<and> 0 \<le> m
      | None \<Rightarrow> fp_pid fr = - 1 \<or> fp_pid fr = 0)"

text \<open>A host process before it uses the bridge, for concrete runs.\<close>

definition host_at_start :: proc where
  "host_at_start =
     \<lparr>pty_mutex = None, environ = Map.empty,
      sigdisp = (\<lambda>_. \<lparr>sa_handler = SIG_DFL, sa_mask = {}, sa_flags = {}\<rparr>),
      pid_mem = (\<lambda>_. 0), children = {}, open_fds = {0, 1, 2}, tty_size = Map.empty,
      image = None, exit_status = None, atexit_ran = False\<rparr>"

subsection \<open>Reading a list of calls\<close>

text \<open>The window sizes handed to the kernel, in order.\<close>

fun winsize_args :: "call list \<Rightarrow> winsize list" where
  "winsize_args [] = []"
| "winsize_args (Forkpty ws fr # cs) = ws # winsize_args cs"
| "winsize_args (Ioctl_TIOCSWINSZ fd ws r # cs) = ws # winsize_args cs"
| "winsize_args (c # cs) = winsize_args cs"

text \<open>The program path and argument vector of every \<^verbatim>\<open>execl\<close>, in order.\<close>

fun exec_args :: "call list \<Rightarrow> (string \<times> string list) list" where
  "exec_args [] = []"
| "exec_args (Execl path argv ok # cs) = (path, argv) # exec_args cs"
| "exec_args (c # cs) = exec_args cs"

text \<open>The signal and action of every \<^verbatim>\<open>sigaction\<close>, in order.\<close>

fun sigactions_of :: "call list \<Rightarrow> (signal \<times> sigaction) list" where
  "sigactions_of [] = []"
| "sigactions_of (Sigaction sig sa # cs) = (sig, sa) # sigactions_of cs"
| "sigactions_of (c # cs) = sigactions_of cs"

text \<open>The calls made before the first \<^verbatim>\<open>execl\<close>.\<close>

fun before_exec :: "call list \<Rightarrow> call list" where
  "before_exec [] = []"
| "before_exec (Execl path argv ok # cs) = []"
| "before_exec (c # cs) = c # before_exec cs"

subsection \<open>Decimal numerals\<close>

text \<open>
  What it means for a text to be the decimal rendering of an integer, said without
  reference to how \<^verbatim>\<open>%d\<close> produces it: the text is a minus sign exactly when the
  integer is negative, followed by one or more ASCII digits (codes 48 to 57) with no
  leading zero unless the digit string is the single digit 0, and the digits read in
  base ten, most significant first, give the absolute value.
\<close>

definition is_digit :: "char \<Rightarrow> bool" where
  "is_digit c = (48 \<le> (of_char c :: nat) \<and> (of_char c :: nat) \<le> 57)"

definition digits_value :: "string \<Rightarrow> nat" where
  "digits_value ds = foldl (\<lambda>acc c. 10 * acc + (of_char c - 48)) 0 ds"

definition canonical_digits :: "string \<Rightarrow> bool" where
  "canonical_digits ds =
     (ds \<noteq> [] \<and> list_all is_digit ds \<and> (length ds = 1 \<or> hd ds \<noteq> CHR ''0''))"

definition decimal_rendering :: "int \<Rightarrow> string \<Rightarrow> bool" where
  "decimal_rendering i s =
     (if i < 0
      then s \<noteq> [] \<and> hd s = CHR ''-'' \<and> canonical_digits (tl s)
             \<and> int (digits_value (tl s)) = - i
      else canonical_digits s \<and> int (digits_value s) = i)"

subsection \<open>Several threads of the host process\<close>

text \<open>
  A thread is the calls it has made and the calls it has still to make. A step of the
  process is one call of one thread, when that call comes back in the current state
  (so a thread at \<^verbatim>\<open>pthread_mutex_lock\<close> moves only while the mutex is free).
\<close>

type_synonym thread = "call list \<times> call list"

inductive step :: "proc \<times> thread list \<Rightarrow> proc \<times> thread list \<Rightarrow> bool" where
  step_call:
    "i < length ts \<Longrightarrow> ts ! i = (past, c # todo) \<Longrightarrow> exec_call i c p = Some p' \<Longrightarrow>
     step (p, ts) (p', ts[i := (past @ [c], todo)])"

text \<open>
  A thread is inside the guarded part of an operation when it has come back from more
  locks than it has made unlocks.
\<close>

definition in_critical :: "thread \<Rightarrow> bool" where
  "in_critical th =
     (count_list (fst th) Pthread_mutex_unlock < count_list (fst th) Pthread_mutex_lock)"

text \<open>The requests to the kernel that the mutex is there to serialize.\<close>

fun kernel_request :: "call \<Rightarrow> bool" where
  "kernel_request (Forkpty ws fr) = True"
| "kernel_request (Ioctl_TIOCSWINSZ fd ws r) = True"
| "kernel_request c = False"

text \<open>
  The operations a thread of the host asks for, each with the answer the system will
  give. In the host a \<^verbatim>\<open>forkpty\<close> never answers 0: that answer is the child's.
\<close>

datatype bridge_op =
    Spawn forkpty_reply nat string "32 word" "32 word"
  | Resize int int "32 word" "32 word"

fun op_calls :: "bridge_op \<Rightarrow> call list" where
  "op_calls (Spawn fr child_pid shell_path rows cols) =
     fst (kobold_forkpty fr False child_pid shell_path rows cols)"
| "op_calls (Resize ioctl_ret master_fd rows cols) =
     fst (kobold_pty_resize ioctl_ret master_fd rows cols)"

fun host_op :: "bridge_op \<Rightarrow> bool" where
  "host_op (Spawn fr child_pid shell_path rows cols) = (fp_pid fr \<noteq> 0)"
| "host_op (Resize ioctl_ret master_fd rows cols) = True"

definition start :: "proc \<Rightarrow> bridge_op list list \<Rightarrow> proc \<times> thread list" where
  "start p opss = (p, map (\<lambda>ops. ([], concat (map op_calls ops))) opss)"

text \<open>
  The lock discipline of the calls a thread has still to make, given whether it holds
  the mutex now: locks and unlocks alternate, kernel requests are made while holding,
  and the thread ends without the mutex.
\<close>

fun disciplined :: "bool \<Rightarrow> call list \<Rightarrow> bool" where
  "disciplined h [] = (\<not> h)"
| "disciplined h (Pthread_mutex_lock # cs) = (\<not> h \<and> disciplined True cs)"
| "disciplined h (Pthread_mutex_unlock # cs) = (h \<and> disciplined False cs)"
| "disciplined h (Forkpty ws fr # cs) = (h \<and> disciplined h cs)"
| "disciplined h (Ioctl_TIOCSWINSZ fd ws r # cs) = (h \<and> disciplined h cs)"
| "disciplined h (c # cs) = disciplined h cs"

text \<open>
  The invariant of the interleaved runs: every thread has come back from as many locks
  as it has made unlocks, plus one exactly when it owns the mutex, and the calls it has
  still to make are disciplined for that ownership.
\<close>

definition lock_inv :: "proc \<times> thread list \<Rightarrow> bool" where
  "lock_inv s =
     (\<forall>i < length (snd s).
        count_list (fst (snd s ! i)) Pthread_mutex_lock =
          count_list (fst (snd s ! i)) Pthread_mutex_unlock
            + (if pty_mutex (fst s) = Some i then 1 else 0)
        \<and> disciplined (pty_mutex (fst s) = Some i) (snd (snd s ! i)))"

section \<open>Properties\<close>

subsection \<open>What each function hands back, and the window size it passes on\<close>

lemma uint_ucast_sint: "uint (ucast (w :: 32 word) :: 16 word) = sint w mod 2 ^ 16"
proof -
  have "uint (ucast w :: 16 word) = take_bit 16 (uint w)"
    by (simp add: unsigned_ucast_eq)
  also have "\<dots> = take_bit 16 (signed_take_bit 31 (uint w))"
    by (simp add: take_bit_signed_take_bit)
  also have "\<dots> = sint w mod 2 ^ 16"
    by (simp add: sint_uint take_bit_eq_mod)
  finally show ?thesis .
qed

lemma winsize_args_child: "winsize_args (fst (child_branch path rows cols ok)) = []"
  by (simp add: child_branch_def Let_def)

lemma winsize_args_forkpty:
  "winsize_args (fst (kobold_forkpty fr ok a path rows cols)) =
     [\<lparr>ws_row = ucast rows, ws_col = ucast cols, ws_xpixel = 0, ws_ypixel = 0\<rparr>]"
  using winsize_args_child [of path rows cols ok]
  by (simp add: kobold_forkpty_def Let_def)

lemma winsize_args_resize:
  "winsize_args (fst (kobold_pty_resize r fd rows cols)) =
     [\<lparr>ws_row = ucast rows, ws_col = ucast cols, ws_xpixel = 0, ws_ypixel = 0\<rparr>]"
  by (simp add: kobold_pty_resize_def Let_def)

lemma snd_child_branch:
  "snd (child_branch path rows cols ok) = (if ok then Image_replaced else Exited 127)"
  by (simp add: child_branch_def Let_def)

lemma snd_kobold_forkpty:
  "snd (kobold_forkpty fr ok a path rows cols) =
     (if fp_pid fr < 0 then Returned (- 1)
      else if fp_pid fr = 0 then (if ok then Image_replaced else Exited 127)
      else Returned (case fp_amaster fr of None \<Rightarrow> - 1 | Some m \<Rightarrow> m))"
  using snd_child_branch [of path rows cols ok]
  by (simp add: kobold_forkpty_def Let_def)

lemma snd_kobold_pty_resize:
  "snd (kobold_pty_resize r fd rows cols) = (if r < 0 then Returned (- 1) else Returned 0)"
  by (simp add: kobold_pty_resize_def Let_def)

text \<open>
  Claim C9. Whatever \<^verbatim>\<open>rows\<close> and \<^verbatim>\<open>cols\<close> are (zero, negative, above 65535), both
  \<^verbatim>\<open>kobold_forkpty\<close> and \<^verbatim>\<open>kobold_pty_resize\<close> hand the kernel exactly one window size,
  whose row and column fields are \<^verbatim>\<open>rows\<close> and \<^verbatim>\<open>cols\<close> reduced modulo \<open>2^16\<close> (the
  pixel fields are zero); and nothing is validated or rejected: what either function
  hands back does not depend on \<^verbatim>\<open>rows\<close> and \<^verbatim>\<open>cols\<close>.
\<close>

theorem winsize_fields_are_casts:
  "map (\<lambda>ws. (uint (ws_row ws), uint (ws_col ws), ws_xpixel ws, ws_ypixel ws))
       (winsize_args (fst (kobold_forkpty fr ok a path rows cols)))
     = [(sint rows mod 2 ^ 16, sint cols mod 2 ^ 16, 0, 0)]
   \<and> map (\<lambda>ws. (uint (ws_row ws), uint (ws_col ws), ws_xpixel ws, ws_ypixel ws))
       (winsize_args (fst (kobold_pty_resize r fd rows cols)))
     = [(sint rows mod 2 ^ 16, sint cols mod 2 ^ 16, 0, 0)]
   \<and> snd (kobold_forkpty fr ok a path rows cols) = snd (kobold_forkpty fr ok a path rows' cols')
   \<and> snd (kobold_pty_resize r fd rows cols) = snd (kobold_pty_resize r fd rows' cols')"
  by (simp add: winsize_args_forkpty winsize_args_resize uint_ucast_sint
      snd_kobold_forkpty snd_kobold_pty_resize)

subsection \<open>Resizing\<close>

lemma run_resize:
  assumes "pty_mutex p = None"
  shows "run t (fst (kobold_pty_resize r fd rows cols)) p =
     Some (if r < 0 then p
           else p\<lparr>tty_size := (tty_size p)(fd \<mapsto>
                  \<lparr>ws_row = ucast rows, ws_col = ucast cols, ws_xpixel = 0, ws_ypixel = 0\<rparr>)\<rparr>)"
  using assms by (cases p) (simp add: kobold_pty_resize_def Let_def)

lemma fst_kobold_pty_resize:
  "fst (kobold_pty_resize r fd rows cols) =
     [Pthread_mutex_lock,
      Ioctl_TIOCSWINSZ fd \<lparr>ws_row = ucast rows, ws_col = ucast cols, ws_xpixel = 0, ws_ypixel = 0\<rparr> r,
      Pthread_mutex_unlock]"
  by (simp add: kobold_pty_resize_def Let_def)

text \<open>
  Claim C6. \<^verbatim>\<open>kobold_pty_resize\<close> hands back \<open>-1\<close> exactly when the size request fails
  (\<^verbatim>\<open>ioctl\<close> returned a negative value) and \<open>0\<close> exactly when it does not. It makes one
  size request, carrying rows and columns together, between locking and unlocking the
  mutex; so, started with the mutex free, the process ends either unchanged (the request
  failed) or changed only in the window size of that descriptor, which is then the whole
  new size: never new rows with old columns or the reverse.
\<close>

theorem resize_fails_iff_ioctl_fails:
  assumes "pty_mutex p = None"
  shows "(snd (kobold_pty_resize r fd rows cols) = Returned (- 1)) = (r < 0)
    \<and> (snd (kobold_pty_resize r fd rows cols) = Returned 0) = (0 \<le> r)
    \<and> fst (kobold_pty_resize r fd rows cols) =
        [Pthread_mutex_lock,
         Ioctl_TIOCSWINSZ fd
           \<lparr>ws_row = ucast rows, ws_col = ucast cols, ws_xpixel = 0, ws_ypixel = 0\<rparr> r,
         Pthread_mutex_unlock]
    \<and> run t (fst (kobold_pty_resize r fd rows cols)) p =
        Some (if r < 0 then p
              else p\<lparr>tty_size := (tty_size p)(fd \<mapsto>
                     \<lparr>ws_row = ucast rows, ws_col = ucast cols, ws_xpixel = 0, ws_ypixel = 0\<rparr>)\<rparr>)"
  using run_resize [OF assms, of t r fd rows cols]
  by (simp add: snd_kobold_pty_resize fst_kobold_pty_resize)

theorem resize_fails_iff_ioctl_fails_witness:
  "pty_mutex host_at_start = None
   \<and> snd (kobold_pty_resize (- 1) 7 24 80) = Returned (- 1)
   \<and> snd (kobold_pty_resize 0 7 24 80) = Returned 0
   \<and> run 0 (fst (kobold_pty_resize (- 1) 7 24 80)) host_at_start = Some host_at_start
   \<and> run 0 (fst (kobold_pty_resize 0 7 24 80)) host_at_start =
       Some (host_at_start\<lparr>tty_size := [7 \<mapsto> \<lparr>ws_row = 24, ws_col = 80, ws_xpixel = 0, ws_ypixel = 0\<rparr>]\<rparr>)"
proof -
  have h: "pty_mutex host_at_start = None" by (simp add: host_at_start_def)
  have t: "tty_size host_at_start = Map.empty" by (simp add: host_at_start_def)
  show ?thesis
    using h t resize_fails_iff_ioctl_fails [OF h, of "- 1" 7 24 80 0]
      resize_fails_iff_ioctl_fails [OF h, of 0 7 24 80 0]
    by simp
qed

subsection \<open>Spawning, seen from the caller\<close>

lemma run_forkpty_parent:
  assumes "pty_mutex p = None" "0 < fp_pid fr"
  shows "run t (fst (kobold_forkpty fr ok a path rows cols)) p =
     Some (case fp_amaster fr of
             None \<Rightarrow> p\<lparr>children := insert (fp_pid fr) (children p),
                        pid_mem := (pid_mem p)(a := fp_pid fr)\<rparr>
           | Some m \<Rightarrow> p\<lparr>children := insert (fp_pid fr) (children p),
                          open_fds := insert m (open_fds p),
                          tty_size := (tty_size p)(m \<mapsto>
                             \<lparr>ws_row = ucast rows, ws_col = ucast cols, ws_xpixel = 0, ws_ypixel = 0\<rparr>),
                          pid_mem := (pid_mem p)(a := fp_pid fr)\<rparr>)"
  using assms by (cases p) (simp add: kobold_forkpty_def Let_def split: option.split)

lemma run_forkpty_failed:
  assumes "pty_mutex p = None" "fp_pid fr < 0"
  shows "run t (fst (kobold_forkpty fr ok a path rows cols)) p = Some p"
  using assms by (cases p) (simp add: kobold_forkpty_def Let_def)

text \<open>
  Claim C1. In the parent (the answer of \<^verbatim>\<open>forkpty\<close> is not 0), when \<^verbatim>\<open>forkpty\<close> keeps its
  contract and the mutex is free, \<^verbatim>\<open>kobold_forkpty\<close> returns, with the mutex released,
  and either hands back a non-negative master descriptor, having stored the positive pid
  of the new child through \<^verbatim>\<open>child_pid\<close> (one child and that one descriptor were
  added), or hands back \<open>-1\<close> and leaves the process exactly as it was: no child, no
  descriptor, nothing stored. This holds for every shell path and size, so in
  particular for valid paths and positive sizes.
\<close>

theorem forkpty_parent_all_or_nothing:
  assumes "forkpty_contract fr" and "fp_pid fr \<noteq> 0" and "pty_mutex p = None"
  shows "\<exists>ret p'. snd (kobold_forkpty fr ok a shell_path rows cols) = Returned ret
           \<and> run t (fst (kobold_forkpty fr ok a shell_path rows cols)) p = Some p'
           \<and> pty_mutex p' = None
           \<and> (0 \<le> ret \<and> 0 < pid_mem p' a \<and> pid_mem p' a = fp_pid fr
                \<and> fp_amaster fr = Some ret
                \<and> children p' = insert (fp_pid fr) (children p)
                \<and> open_fds p' = insert ret (open_fds p)
              \<or> ret = - 1 \<and> fp_pid fr < 0 \<and> fp_amaster fr = None \<and> p' = p)"
proof (cases "fp_pid fr < 0")
  case True
  then have "fp_amaster fr = None"
    using assms(1) by (auto simp: forkpty_contract_def split: option.splits)
  then show ?thesis
    using True assms(3) run_forkpty_failed [OF assms(3) True, of t ok a shell_path rows cols]
    by (simp add: snd_kobold_forkpty)
next
  case False
  then have pos: "0 < fp_pid fr" using assms(2) by simp
  then obtain m where m: "fp_amaster fr = Some m" "0 \<le> m"
    using assms(1) by (auto simp: forkpty_contract_def split: option.splits)
  show ?thesis
    using pos m assms(3) run_forkpty_parent [OF assms(3) pos, of t ok a shell_path rows cols]
    by (simp add: snd_kobold_forkpty)
qed

theorem forkpty_parent_all_or_nothing_witness:
  "forkpty_contract \<lparr>fp_pid = 4711, fp_amaster = Some 5\<rparr>
   \<and> fp_pid \<lparr>fp_pid = 4711, fp_amaster = Some 5\<rparr> \<noteq> 0
   \<and> pty_mutex host_at_start = None
   \<and> snd (kobold_forkpty \<lparr>fp_pid = 4711, fp_amaster = Some 5\<rparr> True 0 ''/bin/zsh'' 24 80) = Returned 5
   \<and> (\<exists>p'. run 0 (fst (kobold_forkpty \<lparr>fp_pid = 4711, fp_amaster = Some 5\<rparr> True 0 ''/bin/zsh'' 24 80))
              host_at_start = Some p'
         \<and> pid_mem p' 0 = 4711 \<and> children p' = {4711} \<and> open_fds p' = {5, 0, 1, 2}
         \<and> pty_mutex p' = None)"
proof -
  have h1: "forkpty_contract \<lparr>fp_pid = 4711, fp_amaster = Some 5\<rparr>"
    by (simp add: forkpty_contract_def)
  have h2: "fp_pid \<lparr>fp_pid = 4711, fp_amaster = Some 5\<rparr> \<noteq> 0" by simp
  have h3: "pty_mutex host_at_start = None" by (simp add: host_at_start_def)
  have c: "children host_at_start = {}" "open_fds host_at_start = {0, 1, 2}"
    by (simp_all add: host_at_start_def)
  show ?thesis
    using h1 h2 h3 c forkpty_parent_all_or_nothing [OF h1 h2 h3, of True 0 "''/bin/zsh''" 24 80 0]
    by auto
qed

subsection \<open>Installing the child reaper\<close>

lemma run_append: "run t (xs @ ys) p = (case run t xs p of None \<Rightarrow> None | Some q \<Rightarrow> run t ys q)"
  by (induction xs arbitrary: p) (auto split: option.splits)

lemma run_init:
  "run t kobold_init_signal_handlers p =
     Some (p\<lparr>sigdisp := (sigdisp p)(SIGCHLD :=
        \<lparr>sa_handler = Handler Sigchld_handler, sa_mask = {},
         sa_flags = {SA_RESTART, SA_NOCLDSTOP}\<rparr>)\<rparr>)"
  by (simp add: kobold_init_signal_handlers_def Let_def insert_commute)

lemma run_init_again:
  "run t kobold_init_signal_handlers
     (p\<lparr>sigdisp := (sigdisp p)(SIGCHLD :=
        \<lparr>sa_handler = Handler Sigchld_handler, sa_mask = {},
         sa_flags = {SA_RESTART, SA_NOCLDSTOP}\<rparr>)\<rparr>)
   = run t kobold_init_signal_handlers p"
  by (simp add: run_init)

lemma run_init_many:
  "run t (concat (replicate (Suc n) kobold_init_signal_handlers)) p
     = run t kobold_init_signal_handlers p"
proof (induction n arbitrary: p)
  case 0
  then show ?case by simp
next
  case (Suc n)
  have unroll: "concat (replicate (Suc (Suc n)) kobold_init_signal_handlers)
        = kobold_init_signal_handlers @ concat (replicate (Suc n) kobold_init_signal_handlers)"
    by simp
  have "run t (concat (replicate (Suc (Suc n)) kobold_init_signal_handlers)) p
        = (case run t kobold_init_signal_handlers p of None \<Rightarrow> None
           | Some q \<Rightarrow> run t (concat (replicate (Suc n) kobold_init_signal_handlers)) q)"
    by (simp only: unroll run_append)
  also have "\<dots> = (case run t kobold_init_signal_handlers p of None \<Rightarrow> None
           | Some q \<Rightarrow> run t kobold_init_signal_handlers q)"
    by (simp only: Suc.IH)
  also have "\<dots> = run t kobold_init_signal_handlers p"
    by (simp add: run_init)
  finally show ?case .
qed

text \<open>
  Claim C8. Calling \<^verbatim>\<open>kobold_init_signal_handlers\<close> any number of times (at least once)
  leaves the process in the state one call leaves it in: unchanged but for the SIGCHLD
  disposition, which is \<^verbatim>\<open>sigchld_handler\<close> with an empty mask and the flags
  \<^verbatim>\<open>SA_RESTART\<close> (restartable) and \<^verbatim>\<open>SA_NOCLDSTOP\<close> (no notification on stop or continue).
\<close>

theorem init_signal_handlers_idempotent:
  "run t (concat (replicate (Suc n) kobold_init_signal_handlers)) p
     = run t kobold_init_signal_handlers p
   \<and> run t kobold_init_signal_handlers p =
       Some (p\<lparr>sigdisp := (sigdisp p)(SIGCHLD :=
          \<lparr>sa_handler = Handler Sigchld_handler, sa_mask = {},
           sa_flags = {SA_RESTART, SA_NOCLDSTOP}\<rparr>)\<rparr>)"
  using run_init_many [of t n p] run_init [of t p] by (rule conjI)

subsection \<open>The child branch up to the exec\<close>

lemma length_dec_nat: "0 < k \<Longrightarrow> n < 10 ^ k \<Longrightarrow> length (dec_nat n) \<le> k"
proof (induction n arbitrary: k rule: dec_nat.induct)
  case (1 n)
  show ?case
  proof (cases "n < 10")
    case True
    then show ?thesis using "1.prems" by (simp add: dec_nat.simps)
  next
    case False
    then obtain j where k: "k = Suc j" using "1.prems" by (cases k) auto
    have "0 < j" using False "1.prems" k by (cases j) auto
    moreover have "n div 10 < 10 ^ j"
      using "1.prems" k by (simp add: less_mult_imp_div_less mult.commute)
    ultimately have "length (dec_nat (n div 10)) \<le> j" using "1.IH" False by simp
    then show ?thesis using False k by (simp add: dec_nat.simps[of n])
  qed
qed

lemma length_dec_int_sint: "length (dec_int (sint (w :: 32 word))) \<le> 11"
proof -
  have lo: "- (2 ^ 31) \<le> sint w" using sint_ge [of w] by simp
  have hi: "sint w < 2 ^ 31" using sint_lt [of w] by simp
  show ?thesis
  proof (cases "sint w < 0")
    case True
    have "nat (- sint w) < 10 ^ 10" using lo True by simp
    then have "length (dec_nat (nat (- sint w))) \<le> 10" by (intro length_dec_nat) simp_all
    then show ?thesis using True by (simp add: dec_int_def)
  next
    case False
    have "nat (sint w) < 10 ^ 10" using hi False by simp
    then have "length (dec_nat (nat (sint w))) \<le> 10" by (intro length_dec_nat) simp_all
    then show ?thesis using False by (simp add: dec_int_def)
  qed
qed

lemma snprintf_dec_int: "snprintf 32 (dec_int (sint (w :: 32 word))) = dec_int (sint w)"
  using length_dec_int_sint [of w] by (simp add: snprintf_def)

lemma fst_forkpty_child:
  "fp_pid fr = 0 \<Longrightarrow>
   fst (kobold_forkpty fr ok a shell_path rows cols) =
     [Pthread_mutex_lock,
      Forkpty \<lparr>ws_row = ucast rows, ws_col = ucast cols, ws_xpixel = 0, ws_ypixel = 0\<rparr> fr]
     @ fst (child_branch shell_path rows cols ok)"
  by (simp add: kobold_forkpty_def Let_def)

lemma before_exec_child:
  "fp_pid fr = 0 \<Longrightarrow>
   before_exec (fst (kobold_forkpty fr ok a shell_path rows cols)) =
     [Pthread_mutex_lock,
      Forkpty \<lparr>ws_row = ucast rows, ws_col = ucast cols, ws_xpixel = 0, ws_ypixel = 0\<rparr> fr,
      Pthread_mutex_unlock,
      Setenv ''TERM'' ''xterm-256color'' True,
      Setenv ''LANG'' ''de_DE.UTF-8'' True,
      Setenv ''COLORTERM'' ''truecolor'' True,
      Setenv ''COLUMNS'' (dec_int (sint cols)) True,
      Setenv ''LINES'' (dec_int (sint rows)) True,
      Sigaction SIGINT \<lparr>sa_handler = SIG_DFL, sa_mask = {}, sa_flags = {}\<rparr>,
      Sigaction SIGQUIT \<lparr>sa_handler = SIG_DFL, sa_mask = {}, sa_flags = {}\<rparr>,
      Sigaction SIGTSTP \<lparr>sa_handler = SIG_DFL, sa_mask = {}, sa_flags = {}\<rparr>,
      Sigaction SIGPIPE \<lparr>sa_handler = SIG_DFL, sa_mask = {}, sa_flags = {}\<rparr>,
      Sigaction SIGCHLD \<lparr>sa_handler = SIG_DFL, sa_mask = {}, sa_flags = {}\<rparr>,
      Sigaction SIGHUP \<lparr>sa_handler = SIG_DFL, sa_mask = {}, sa_flags = {}\<rparr>,
      Sigaction SIGTERM \<lparr>sa_handler = SIG_DFL, sa_mask = {}, sa_flags = {}\<rparr>]"
  by (simp add: fst_forkpty_child child_branch_def Let_def snprintf_dec_int)

lemma after_before_exec_child:
  "fp_pid fr = 0 \<Longrightarrow>
   fst (kobold_forkpty fr ok a shell_path rows cols) =
     before_exec (fst (kobold_forkpty fr ok a shell_path rows cols))
     @ [Execl shell_path
          [snprintf 256 (CHR ''-'' # (case strrchr shell_path CHR ''/'' of
                                        Some s \<Rightarrow> tl s | None \<Rightarrow> shell_path))] ok]
     @ (if ok then [] else [Underscore_exit 127])"
  by (simp add: fst_forkpty_child child_branch_def Let_def)

lemma run_before_exec_child:
  assumes "fp_pid fr = 0" "pty_mutex p = None"
  shows "run t (before_exec (fst (kobold_forkpty fr ok a shell_path rows cols))) p =
    Some (p\<lparr>children := {},
            environ := (environ p)(''TERM'' \<mapsto> ''xterm-256color'', ''LANG'' \<mapsto> ''de_DE.UTF-8'',
               ''COLORTERM'' \<mapsto> ''truecolor'', ''COLUMNS'' \<mapsto> dec_int (sint cols),
               ''LINES'' \<mapsto> dec_int (sint rows)),
            sigdisp := (sigdisp p)
              (SIGINT := \<lparr>sa_handler = SIG_DFL, sa_mask = {}, sa_flags = {}\<rparr>,
               SIGQUIT := \<lparr>sa_handler = SIG_DFL, sa_mask = {}, sa_flags = {}\<rparr>,
               SIGTSTP := \<lparr>sa_handler = SIG_DFL, sa_mask = {}, sa_flags = {}\<rparr>,
               SIGPIPE := \<lparr>sa_handler = SIG_DFL, sa_mask = {}, sa_flags = {}\<rparr>,
               SIGCHLD := \<lparr>sa_handler = SIG_DFL, sa_mask = {}, sa_flags = {}\<rparr>,
               SIGHUP := \<lparr>sa_handler = SIG_DFL, sa_mask = {}, sa_flags = {}\<rparr>,
               SIGTERM := \<lparr>sa_handler = SIG_DFL, sa_mask = {}, sa_flags = {}\<rparr>)\<rparr>)"
  using assms by (cases p) (simp add: before_exec_child)


lemma run_forkpty_host_environ:
  assumes "fp_pid fr \<noteq> 0" "pty_mutex p = None"
  shows "\<exists>p'. run t (fst (kobold_forkpty fr ok a shell_path rows cols)) p = Some p'
           \<and> environ p' = environ p \<and> sigdisp p' = sigdisp p"
  using assms by (cases p) (simp add: kobold_forkpty_def Let_def split: option.split)

text \<open>
  The \<^verbatim>\<open>%d\<close> conversion of the bridge produces the decimal rendering, and an integer
  has no other.
\<close>

lemma digit_cases: "d < 10 \<Longrightarrow> d = 0 \<or> d = 1 \<or> d = 2 \<or> d = 3 \<or> d = 4 \<or> d = 5 \<or> d = 6 \<or> d = 7 \<or> d = 8 \<or> d = (9::nat)"
  by arith

lemma of_char_digit_char: "d < 10 \<Longrightarrow> (of_char (digit_char d) :: nat) = 48 + d"
  using digit_cases [of d] by (auto simp: digit_char_def)

lemma is_digit_digit_char: "d < 10 \<Longrightarrow> is_digit (digit_char d)"
  by (simp add: is_digit_def of_char_digit_char)

lemma digit_char_of_char:
  assumes "is_digit c"
  shows "digit_char (of_char c - 48) = c"
proof -
  have d: "(of_char c :: nat) - 48 < 10" using assms unfolding is_digit_def by arith
  have "(of_char (digit_char (of_char c - 48)) :: nat) = of_char c"
    using of_char_digit_char [OF d] assms unfolding is_digit_def by arith
  then show ?thesis by (simp only: of_char_eq_iff)
qed

lemma digits_value_snoc: "digits_value (ds @ [c]) = 10 * digits_value ds + (of_char c - 48)"
  by (simp add: digits_value_def)

lemma dec_nat_nonempty: "dec_nat n \<noteq> []"
  by (subst dec_nat.simps) simp

lemma digits_dec_nat: "list_all is_digit (dec_nat n)"
proof (induction n rule: dec_nat.induct)
  case (1 n)
  show ?case
  proof (cases "n < 10")
    case True
    then show ?thesis by (simp add: dec_nat.simps is_digit_digit_char)
  next
    case False
    then show ?thesis using "1.IH" by (simp add: dec_nat.simps [of n] is_digit_digit_char)
  qed
qed

lemma digits_value_dec_nat: "digits_value (dec_nat n) = n"
proof (induction n rule: dec_nat.induct)
  case (1 n)
  show ?case
  proof (cases "n < 10")
    case True
    then show ?thesis by (simp add: dec_nat.simps digits_value_def of_char_digit_char)
  next
    case False
    then show ?thesis
      using "1.IH" by (simp add: dec_nat.simps [of n] digits_value_snoc of_char_digit_char)
  qed
qed

lemma hd_dec_nat_zero: "hd (dec_nat n) = CHR ''0'' \<Longrightarrow> n = 0"
proof (induction n rule: dec_nat.induct)
  case (1 n)
  show ?case
  proof (cases "n < 10")
    case True
    then have "digit_char n = CHR ''0''" using "1.prems" by (simp add: dec_nat.simps)
    then have "(of_char (digit_char n) :: nat) = 48" by simp
    then show ?thesis using of_char_digit_char [OF True] by simp
  next
    case False
    then have "hd (dec_nat (n div 10)) = CHR ''0''"
      using "1.prems" dec_nat_nonempty [of "n div 10"] by (simp add: dec_nat.simps [of n])
    then have "n div 10 = 0" using "1.IH" False by simp
    then show ?thesis using False by simp
  qed
qed

lemma length_dec_nat_zero: "length (dec_nat 0) = 1"
  by (simp add: dec_nat.simps)

lemma canonical_dec_nat: "canonical_digits (dec_nat n)"
  using hd_dec_nat_zero [of n] length_dec_nat_zero
  by (auto simp: canonical_digits_def dec_nat_nonempty digits_dec_nat)

lemma decimal_rendering_dec_int: "decimal_rendering i (dec_int i)"
  by (simp add: decimal_rendering_def dec_int_def canonical_dec_nat digits_value_dec_nat)

lemma digits_value_pos:
  "ds \<noteq> [] \<Longrightarrow> list_all is_digit ds \<Longrightarrow> hd ds \<noteq> CHR ''0'' \<Longrightarrow> 0 < digits_value ds"
proof (induction ds rule: rev_induct)
  case Nil
  then show ?case by simp
next
  case (snoc c ds)
  show ?case
  proof (cases "ds = []")
    case True
    have "is_digit c" using snoc.prems(2) by simp
    moreover have "c \<noteq> CHR ''0''" using snoc.prems(3) True by simp
    ultimately have "(of_char c :: nat) \<noteq> of_char CHR ''0''"
      by (simp only: of_char_eq_iff not_False_eq_True)
    then have "(of_char c :: nat) \<noteq> 48" by simp
    moreover have "48 \<le> (of_char c :: nat)" using \<open>is_digit c\<close> by (simp add: is_digit_def)
    ultimately have "0 < (of_char c :: nat) - 48" by arith
    then show ?thesis using True by (simp add: digits_value_def)
  next
    case False
    then have "0 < digits_value ds" using snoc by simp
    then show ?thesis by (simp add: digits_value_snoc)
  qed
qed

lemma dec_nat_digits_value: "canonical_digits ds \<Longrightarrow> dec_nat (digits_value ds) = ds"
proof (induction ds rule: rev_induct)
  case Nil
  then show ?case by (simp add: canonical_digits_def)
next
  case (snoc c ds)
  have c: "is_digit c" using snoc.prems by (simp add: canonical_digits_def)
  then have d: "(of_char c :: nat) - 48 < 10" unfolding is_digit_def by arith
  show ?case
  proof (cases "ds = []")
    case True
    then show ?thesis using d c
      by (simp add: digits_value_def dec_nat.simps digit_char_of_char)
  next
    case False
    then have h: "hd ds \<noteq> CHR ''0''" "list_all is_digit ds"
      using snoc.prems by (auto simp: canonical_digits_def)
    then have can: "canonical_digits ds" using False by (simp add: canonical_digits_def)
    have pos: "0 < digits_value ds" using digits_value_pos [OF False h(2) h(1)] .
    have "dec_nat (10 * digits_value ds + (of_char c - 48))
        = dec_nat (digits_value ds) @ [digit_char (of_char c - 48)]"
      using pos d by (subst dec_nat.simps) simp
    then show ?thesis
      using snoc.IH [OF can] c by (simp add: digits_value_snoc digit_char_of_char)
  qed
qed

lemma decimal_rendering_unique:
  assumes "decimal_rendering i s"
  shows "s = dec_int i"
proof (cases "i < 0")
  case True
  then have s: "s \<noteq> []" "hd s = CHR ''-''" "canonical_digits (tl s)"
      "int (digits_value (tl s)) = - i"
    using assms by (simp_all add: decimal_rendering_def)
  have "digits_value (tl s) = nat (- i)" using s(4) by simp
  then have "dec_nat (nat (- i)) = tl s" using dec_nat_digits_value [OF s(3)] by simp
  then show ?thesis using True s(1,2) by (cases s) (simp_all add: dec_int_def)
next
  case False
  then have s: "canonical_digits s" "int (digits_value s) = i"
    using assms by (simp_all add: decimal_rendering_def)
  have "digits_value s = nat i" using s(2) by simp
  then have "dec_nat (nat i) = s" using dec_nat_digits_value [OF s(1)] by simp
  then show ?thesis using False by (simp add: dec_int_def)
qed

text \<open>
  Claim C4. In the child (the answer of \<^verbatim>\<open>forkpty\<close> is 0), when the calls before the
  \<^verbatim>\<open>execl\<close> have run, the environment is the inherited one with five variables
  overwritten: \<^verbatim>\<open>TERM\<close>, \<^verbatim>\<open>LANG\<close> and \<^verbatim>\<open>COLORTERM\<close> with their fixed values, \<^verbatim>\<open>COLUMNS\<close>
  with the decimal rendering of \<^verbatim>\<open>cols\<close> and \<^verbatim>\<open>LINES\<close> with the decimal rendering of
  \<^verbatim>\<open>rows\<close>, where a decimal rendering is what \<open>decimal_rendering\<close> says (sign, ASCII
  digits without leading zero, base-ten value) and each integer has exactly one. The
  five values depend on nothing but the arguments of the call (not on the inherited
  environment), and an \<^verbatim>\<open>execl\<close> does follow. In the caller's process (any other answer
  of \<^verbatim>\<open>forkpty\<close>) the environment after the call is the one before it.
\<close>

theorem child_environment:
  assumes "fp_pid frc = 0" and "fp_pid frp \<noteq> 0" and "pty_mutex p = None"
  shows "(\<exists>p1 cols_text rows_text.
            run t (before_exec (fst (kobold_forkpty frc ok a shell_path rows cols))) p = Some p1
          \<and> decimal_rendering (sint cols) cols_text
          \<and> decimal_rendering (sint rows) rows_text
          \<and> (\<forall>s. decimal_rendering (sint cols) s \<longrightarrow> s = cols_text)
          \<and> (\<forall>s. decimal_rendering (sint rows) s \<longrightarrow> s = rows_text)
          \<and> environ p1 =
                (environ p)(''TERM'' \<mapsto> ''xterm-256color'', ''LANG'' \<mapsto> ''de_DE.UTF-8'',
                  ''COLORTERM'' \<mapsto> ''truecolor'', ''COLUMNS'' \<mapsto> cols_text,
                  ''LINES'' \<mapsto> rows_text))
    \<and> length (before_exec (fst (kobold_forkpty frc ok a shell_path rows cols)))
        < length (fst (kobold_forkpty frc ok a shell_path rows cols))
    \<and> (\<exists>p'. run t (fst (kobold_forkpty frp ok a shell_path rows cols)) p = Some p'
            \<and> environ p' = environ p)"
proof -
  have len: "length (before_exec (fst (kobold_forkpty frc ok a shell_path rows cols)))
        < length (fst (kobold_forkpty frc ok a shell_path rows cols))"
    by (subst (2) after_before_exec_child [OF assms(1)]) simp
  have host: "\<exists>p'. run t (fst (kobold_forkpty frp ok a shell_path rows cols)) p = Some p'
            \<and> environ p' = environ p"
    using run_forkpty_host_environ [OF assms(2,3), of t ok a shell_path rows cols] by blast
  have u: "\<forall>s. decimal_rendering (sint cols) s \<longrightarrow> s = dec_int (sint cols)"
      "\<forall>s. decimal_rendering (sint rows) s \<longrightarrow> s = dec_int (sint rows)"
    using decimal_rendering_unique by blast+
  have child: "\<exists>p1 cols_text rows_text.
            run t (before_exec (fst (kobold_forkpty frc ok a shell_path rows cols))) p = Some p1
          \<and> decimal_rendering (sint cols) cols_text
          \<and> decimal_rendering (sint rows) rows_text
          \<and> (\<forall>s. decimal_rendering (sint cols) s \<longrightarrow> s = cols_text)
          \<and> (\<forall>s. decimal_rendering (sint rows) s \<longrightarrow> s = rows_text)
          \<and> environ p1 =
                (environ p)(''TERM'' \<mapsto> ''xterm-256color'', ''LANG'' \<mapsto> ''de_DE.UTF-8'',
                  ''COLORTERM'' \<mapsto> ''truecolor'', ''COLUMNS'' \<mapsto> cols_text,
                  ''LINES'' \<mapsto> rows_text)"
    apply (rule exI [where x = "the (run t (before_exec (fst (kobold_forkpty frc ok a shell_path rows cols))) p)"])
    apply (rule exI [where x = "dec_int (sint cols)"])
    apply (rule exI [where x = "dec_int (sint rows)"])
    using u by (simp add: run_before_exec_child [OF assms(1,3)] decimal_rendering_dec_int)
  show ?thesis using child len host by (intro conjI)
qed

lemma decimal_rendering_80: "decimal_rendering 80 ''80''"
  by (simp add: decimal_rendering_def canonical_digits_def digits_value_def is_digit_def)

lemma decimal_rendering_24: "decimal_rendering 24 ''24''"
  by (simp add: decimal_rendering_def canonical_digits_def digits_value_def is_digit_def)

theorem child_environment_witness:
  "fp_pid \<lparr>fp_pid = 0, fp_amaster = None\<rparr> = 0
   \<and> fp_pid \<lparr>fp_pid = 4711, fp_amaster = Some 5\<rparr> \<noteq> 0
   \<and> pty_mutex host_at_start = None
   \<and> decimal_rendering 80 ''80'' \<and> decimal_rendering 24 ''24''
   \<and> (\<exists>p1. run 0 (before_exec (fst (kobold_forkpty \<lparr>fp_pid = 0, fp_amaster = None\<rparr> True 0
                      ''/bin/zsh'' 24 80))) host_at_start = Some p1
         \<and> environ p1 = [''TERM'' \<mapsto> ''xterm-256color'', ''LANG'' \<mapsto> ''de_DE.UTF-8'',
                  ''COLORTERM'' \<mapsto> ''truecolor'', ''COLUMNS'' \<mapsto> ''80'', ''LINES'' \<mapsto> ''24''])
   \<and> (\<exists>p'. run 0 (fst (kobold_forkpty \<lparr>fp_pid = 4711, fp_amaster = Some 5\<rparr> True 0
                      ''/bin/zsh'' 24 80)) host_at_start = Some p'
         \<and> environ p' = Map.empty)"
proof -
  have h1: "fp_pid \<lparr>fp_pid = 0, fp_amaster = None\<rparr> = 0" by simp
  have h2: "fp_pid \<lparr>fp_pid = 4711, fp_amaster = Some 5\<rparr> \<noteq> 0" by simp
  have h3: "pty_mutex host_at_start = None" by (simp add: host_at_start_def)
  have e: "environ host_at_start = Map.empty" by (simp add: host_at_start_def)
  note th = child_environment [OF h1 h2 h3, where t = 0 and ok = True and a = 0
      and shell_path = "''/bin/zsh''" and rows = 24 and cols = 80]
  from th obtain p1 ct rt where
      r: "run 0 (before_exec (fst (kobold_forkpty \<lparr>fp_pid = 0, fp_amaster = None\<rparr> True 0
                      ''/bin/zsh'' 24 80))) host_at_start = Some p1"
    and uc: "\<forall>s. decimal_rendering (sint (80 :: 32 word)) s \<longrightarrow> s = ct"
    and ur: "\<forall>s. decimal_rendering (sint (24 :: 32 word)) s \<longrightarrow> s = rt"
    and env: "environ p1 = (environ host_at_start)(''TERM'' \<mapsto> ''xterm-256color'',
                  ''LANG'' \<mapsto> ''de_DE.UTF-8'', ''COLORTERM'' \<mapsto> ''truecolor'',
                  ''COLUMNS'' \<mapsto> ct, ''LINES'' \<mapsto> rt)"
    by blast
  have ct: "ct = ''80''" using uc decimal_rendering_80 by simp
  have rt: "rt = ''24''" using ur decimal_rendering_24 by simp
  have child: "\<exists>p1. run 0 (before_exec (fst (kobold_forkpty \<lparr>fp_pid = 0, fp_amaster = None\<rparr> True 0
                      ''/bin/zsh'' 24 80))) host_at_start = Some p1
         \<and> environ p1 = [''TERM'' \<mapsto> ''xterm-256color'', ''LANG'' \<mapsto> ''de_DE.UTF-8'',
                  ''COLORTERM'' \<mapsto> ''truecolor'', ''COLUMNS'' \<mapsto> ''80'', ''LINES'' \<mapsto> ''24'']"
    using r env ct rt e by simp
  have host: "\<exists>p'. run 0 (fst (kobold_forkpty \<lparr>fp_pid = 4711, fp_amaster = Some 5\<rparr> True 0
                      ''/bin/zsh'' 24 80)) host_at_start = Some p'
         \<and> environ p' = Map.empty"
    using th e by simp
  show ?thesis
    using h1 h2 h3 decimal_rendering_80 decimal_rendering_24 child host by (intro conjI)
qed


subsection \<open>Signal dispositions in the child\<close>

lemma sigactions_before_exec_child:
  "fp_pid fr = 0 \<Longrightarrow>
   sigactions_of (before_exec (fst (kobold_forkpty fr ok a shell_path rows cols))) =
     map (\<lambda>sig. (sig, \<lparr>sa_handler = SIG_DFL, sa_mask = {}, sa_flags = {}\<rparr>))
       [SIGINT, SIGQUIT, SIGTSTP, SIGPIPE, SIGCHLD, SIGHUP, SIGTERM]"
  by (simp add: before_exec_child)

lemma sigactions_of_append: "sigactions_of (xs @ ys) = sigactions_of xs @ sigactions_of ys"
  by (induction xs rule: sigactions_of.induct) simp_all

lemma sigactions_all_before_exec:
  "fp_pid fr = 0 \<Longrightarrow>
   sigactions_of (fst (kobold_forkpty fr ok a shell_path rows cols)) =
   sigactions_of (before_exec (fst (kobold_forkpty fr ok a shell_path rows cols)))"
  by (subst after_before_exec_child, assumption) (simp add: sigactions_of_append)

text \<open>
  Claim C5. In the child, the \<^verbatim>\<open>sigaction\<close> calls are exactly seven, for SIGINT, SIGQUIT,
  SIGTSTP, SIGPIPE, SIGCHLD, SIGHUP and SIGTERM, each installing the default action
  with an empty mask and no flags; all of them come before the \<^verbatim>\<open>execl\<close>, which does
  follow. At the \<^verbatim>\<open>execl\<close> these seven signals have the default disposition and every
  other signal has the disposition it had when \<^verbatim>\<open>kobold_forkpty\<close> was called.
\<close>

theorem child_signal_dispositions:
  assumes "fp_pid fr = 0" and "pty_mutex p = None"
  shows "sigactions_of (before_exec (fst (kobold_forkpty fr ok a shell_path rows cols))) =
           map (\<lambda>sig. (sig, \<lparr>sa_handler = SIG_DFL, sa_mask = {}, sa_flags = {}\<rparr>))
             [SIGINT, SIGQUIT, SIGTSTP, SIGPIPE, SIGCHLD, SIGHUP, SIGTERM]
    \<and> sigactions_of (fst (kobold_forkpty fr ok a shell_path rows cols)) =
        sigactions_of (before_exec (fst (kobold_forkpty fr ok a shell_path rows cols)))
    \<and> length (before_exec (fst (kobold_forkpty fr ok a shell_path rows cols)))
        < length (fst (kobold_forkpty fr ok a shell_path rows cols))
    \<and> (\<exists>p1. run t (before_exec (fst (kobold_forkpty fr ok a shell_path rows cols))) p = Some p1
          \<and> sigdisp p1 =
              (\<lambda>sig. if sig \<in> {SIGINT, SIGQUIT, SIGTSTP, SIGPIPE, SIGCHLD, SIGHUP, SIGTERM}
                     then \<lparr>sa_handler = SIG_DFL, sa_mask = {}, sa_flags = {}\<rparr>
                     else sigdisp p sig))"
proof -
  have "length (before_exec (fst (kobold_forkpty fr ok a shell_path rows cols)))
        < length (fst (kobold_forkpty fr ok a shell_path rows cols))"
    by (subst (2) after_before_exec_child [OF assms(1)]) simp
  moreover have "(sigdisp p)
              (SIGINT := \<lparr>sa_handler = SIG_DFL, sa_mask = {}, sa_flags = {}\<rparr>,
               SIGQUIT := \<lparr>sa_handler = SIG_DFL, sa_mask = {}, sa_flags = {}\<rparr>,
               SIGTSTP := \<lparr>sa_handler = SIG_DFL, sa_mask = {}, sa_flags = {}\<rparr>,
               SIGPIPE := \<lparr>sa_handler = SIG_DFL, sa_mask = {}, sa_flags = {}\<rparr>,
               SIGCHLD := \<lparr>sa_handler = SIG_DFL, sa_mask = {}, sa_flags = {}\<rparr>,
               SIGHUP := \<lparr>sa_handler = SIG_DFL, sa_mask = {}, sa_flags = {}\<rparr>,
               SIGTERM := \<lparr>sa_handler = SIG_DFL, sa_mask = {}, sa_flags = {}\<rparr>)
     = (\<lambda>sig. if sig \<in> {SIGINT, SIGQUIT, SIGTSTP, SIGPIPE, SIGCHLD, SIGHUP, SIGTERM}
                     then \<lparr>sa_handler = SIG_DFL, sa_mask = {}, sa_flags = {}\<rparr>
                     else sigdisp p sig)"
    by (rule ext) simp
  ultimately show ?thesis
    using sigactions_before_exec_child [OF assms(1), of ok a shell_path rows cols]
      sigactions_all_before_exec [OF assms(1), of ok a shell_path rows cols]
    by (simp add: run_before_exec_child [OF assms])
qed

theorem child_signal_dispositions_witness:
  "fp_pid \<lparr>fp_pid = 0, fp_amaster = None\<rparr> = 0
   \<and> pty_mutex (host_at_start\<lparr>sigdisp := (sigdisp host_at_start)
          (SIGCHLD := \<lparr>sa_handler = Handler Sigchld_handler, sa_mask = {},
                       sa_flags = {SA_RESTART, SA_NOCLDSTOP}\<rparr>,
           SIGWINCH := \<lparr>sa_handler = Handler (Host_function 1), sa_mask = {},
                        sa_flags = {}\<rparr>)\<rparr>) = None
   \<and> (\<exists>p1. run 0 (before_exec (fst (kobold_forkpty \<lparr>fp_pid = 0, fp_amaster = None\<rparr> True 0
                      ''/bin/zsh'' 24 80)))
               (host_at_start\<lparr>sigdisp := (sigdisp host_at_start)
                  (SIGCHLD := \<lparr>sa_handler = Handler Sigchld_handler, sa_mask = {},
                               sa_flags = {SA_RESTART, SA_NOCLDSTOP}\<rparr>,
                   SIGWINCH := \<lparr>sa_handler = Handler (Host_function 1), sa_mask = {},
                                sa_flags = {}\<rparr>)\<rparr>) = Some p1
         \<and> sigdisp p1 SIGCHLD = \<lparr>sa_handler = SIG_DFL, sa_mask = {}, sa_flags = {}\<rparr>
         \<and> sigdisp p1 SIGWINCH = \<lparr>sa_handler = Handler (Host_function 1), sa_mask = {},
                                  sa_flags = {}\<rparr>)"
proof -
  let ?p = "host_at_start\<lparr>sigdisp := (sigdisp host_at_start)
          (SIGCHLD := \<lparr>sa_handler = Handler Sigchld_handler, sa_mask = {},
                       sa_flags = {SA_RESTART, SA_NOCLDSTOP}\<rparr>,
           SIGWINCH := \<lparr>sa_handler = Handler (Host_function 1), sa_mask = {},
                        sa_flags = {}\<rparr>)\<rparr>"
  have h1: "fp_pid \<lparr>fp_pid = 0, fp_amaster = None\<rparr> = 0" by simp
  have h2: "pty_mutex ?p = None" by (simp add: host_at_start_def)
  show ?thesis
    using h2 child_signal_dispositions [OF h1 h2, where t = 0 and ok = True and a = 0
        and shell_path = "''/bin/zsh''" and rows = 24 and cols = 80]
    by auto
qed

subsection \<open>A failed exec\<close>

lemma run_forkpty_child_exec_failed:
  assumes "fp_pid fr = 0" "pty_mutex p = None"
  shows "run t (fst (kobold_forkpty fr False a shell_path rows cols)) p =
     (case run t (before_exec (fst (kobold_forkpty fr False a shell_path rows cols))) p of
        None \<Rightarrow> None
      | Some p1 \<Rightarrow> Some (p1\<lparr>exit_status := Some 127\<rparr>))"
  by (subst after_before_exec_child [OF assms(1)])
     (simp add: run_append run_before_exec_child [OF assms])

text \<open>
  Claim C3. In the child, when \<^verbatim>\<open>execl\<close> fails, the call ends the process with status
  127: the failed \<^verbatim>\<open>execl\<close> is followed by \<^verbatim>\<open>_exit(127)\<close> and by nothing else, so the
  process at its end is the process at the \<^verbatim>\<open>execl\<close> with the exit status set; it
  terminates through \<^verbatim>\<open>_exit\<close>, not \<^verbatim>\<open>exit\<close>, so the handlers registered with \<^verbatim>\<open>atexit\<close>
  are not run, and the image is still the host's.
\<close>

theorem child_exits_127_when_exec_fails:
  assumes "fp_pid fr = 0" and "\<not> ok" and "pty_mutex p = None"
  shows "snd (kobold_forkpty fr ok a shell_path rows cols) = Exited 127
    \<and> (\<exists>argv. fst (kobold_forkpty fr ok a shell_path rows cols) =
          before_exec (fst (kobold_forkpty fr ok a shell_path rows cols))
          @ [Execl shell_path argv False, Underscore_exit 127])
    \<and> (\<exists>p1 p'. run t (before_exec (fst (kobold_forkpty fr ok a shell_path rows cols))) p = Some p1
          \<and> run t (fst (kobold_forkpty fr ok a shell_path rows cols)) p = Some p'
          \<and> p' = p1\<lparr>exit_status := Some 127\<rparr>
          \<and> atexit_ran p' = atexit_ran p \<and> image p' = image p)"
proof -
  have ok: "ok = False" using assms(2) by simp
  have a: "snd (kobold_forkpty fr ok a shell_path rows cols) = Exited 127"
    using assms(1) by (simp add: snd_kobold_forkpty ok)
  have b: "\<exists>argv. fst (kobold_forkpty fr ok a shell_path rows cols) =
          before_exec (fst (kobold_forkpty fr ok a shell_path rows cols))
          @ [Execl shell_path argv False, Underscore_exit 127]"
    using after_before_exec_child [OF assms(1), of False a shell_path rows cols]
    unfolding ok by auto
  have c: "\<exists>p1 p'. run t (before_exec (fst (kobold_forkpty fr ok a shell_path rows cols))) p = Some p1
          \<and> run t (fst (kobold_forkpty fr ok a shell_path rows cols)) p = Some p'
          \<and> p' = p1\<lparr>exit_status := Some 127\<rparr>
          \<and> atexit_ran p' = atexit_ran p \<and> image p' = image p"
    unfolding ok run_forkpty_child_exec_failed [OF assms(1,3)]
    by (simp add: run_before_exec_child [OF assms(1,3)])
  show ?thesis using a b c by blast
qed

theorem child_exits_127_when_exec_fails_witness:
  "fp_pid \<lparr>fp_pid = 0, fp_amaster = None\<rparr> = 0 \<and> \<not> False
   \<and> pty_mutex host_at_start = None
   \<and> snd (kobold_forkpty \<lparr>fp_pid = 0, fp_amaster = None\<rparr> False 0 ''/nonexistent/path'' 24 80)
       = Exited 127
   \<and> (\<exists>p'. run 0 (fst (kobold_forkpty \<lparr>fp_pid = 0, fp_amaster = None\<rparr> False 0
                        ''/nonexistent/path'' 24 80)) host_at_start = Some p'
          \<and> exit_status p' = Some 127 \<and> atexit_ran p' = False \<and> image p' = None)"
proof -
  have h1: "fp_pid \<lparr>fp_pid = 0, fp_amaster = None\<rparr> = 0" by simp
  have h2: "\<not> False" by simp
  have h3: "pty_mutex host_at_start = None" by (simp add: host_at_start_def)
  have s: "atexit_ran host_at_start = False" "image host_at_start = None"
    by (simp_all add: host_at_start_def)
  show ?thesis
    using h3 s child_exits_127_when_exec_fails [OF h1 h2 h3, where t = 0 and a = 0
        and shell_path = "''/nonexistent/path''" and rows = 24 and cols = 80]
    by auto
qed

subsection \<open>The argument vector of the shell\<close>

lemma strrchr_absent: "c \<notin> set s \<Longrightarrow> strrchr s c = None"
  by (induction s) auto

lemma strrchr_last: "c \<notin> set name \<Longrightarrow> strrchr (pre @ c # name) c = Some (c # name)"
  by (induction pre) (auto simp: strrchr_absent)

lemma exec_args_append: "exec_args (xs @ ys) = exec_args xs @ exec_args ys"
  by (induction xs rule: exec_args.induct) simp_all

lemma exec_args_before_exec: "exec_args (before_exec xs) = []"
  by (induction xs rule: before_exec.induct) simp_all

lemma exec_args_child:
  assumes "fp_pid fr = 0"
  shows "exec_args (fst (kobold_forkpty fr ok a shell_path rows cols)) =
     [(shell_path,
       [snprintf 256 (CHR ''-'' # (case strrchr shell_path CHR ''/'' of
                                     Some s \<Rightarrow> tl s | None \<Rightarrow> shell_path))])]"
  by (subst after_before_exec_child [OF assms])
     (simp add: exec_args_append exec_args_before_exec)

text \<open>
  Claim C2, as amended. In the child, for a \<^verbatim>\<open>shell_path\<close> whose part after the last
  \<^verbatim>\<open>/\<close> is \<open>name\<close>, there is one \<^verbatim>\<open>execl\<close>, of \<^verbatim>\<open>shell_path\<close>, with an argument vector of
  one element: \<^verbatim>\<open>-\<close> followed by \<open>name\<close>, cut to the 255 bytes that fit the 256-byte
  buffer \<^verbatim>\<open>login_arg\<close>. For a \<open>name\<close> of at most 254 bytes that is \<^verbatim>\<open>-\<close> followed by the
  whole of \<open>name\<close>.
\<close>

theorem login_argv_from_last_segment:
  assumes "fp_pid fr = 0" and "shell_path = pre @ CHR ''/'' # name" and "CHR ''/'' \<notin> set name"
  shows "exec_args (fst (kobold_forkpty fr ok a shell_path rows cols)) =
           [(shell_path, [take 255 (CHR ''-'' # name)])]
    \<and> (length name \<le> 254 \<longrightarrow>
         exec_args (fst (kobold_forkpty fr ok a shell_path rows cols)) =
           [(shell_path, [CHR ''-'' # name])])"
  using assms(2) strrchr_last [OF assms(3), of pre]
  by (simp add: exec_args_child [OF assms(1)] snprintf_def)

theorem login_argv_from_last_segment_witness:
  "fp_pid \<lparr>fp_pid = 0, fp_amaster = None\<rparr> = 0
   \<and> ''/bin/zsh'' = ''/bin'' @ CHR ''/'' # ''zsh''
   \<and> CHR ''/'' \<notin> set ''zsh''
   \<and> length ''zsh'' \<le> 254
   \<and> exec_args (fst (kobold_forkpty \<lparr>fp_pid = 0, fp_amaster = None\<rparr> True 0 ''/bin/zsh'' 24 80))
       = [(''/bin/zsh'', [''-zsh''])]"
proof -
  have h1: "fp_pid \<lparr>fp_pid = 0, fp_amaster = None\<rparr> = 0" by simp
  have h2: "''/bin/zsh'' = ''/bin'' @ CHR ''/'' # ''zsh''" by simp
  have h3: "CHR ''/'' \<notin> set ''zsh''" by simp
  show ?thesis
    using h1 h3 login_argv_from_last_segment [OF h1 h2 h3, where ok = True and a = 0
        and rows = 24 and cols = 80]
    by simp
qed

text \<open>
  Claim C2 as stated fails for a long last segment: for \<^verbatim>\<open>/bin/\<close> followed by 255 times
  \<^verbatim>\<open>a\<close>, the argument is not \<^verbatim>\<open>-\<close> followed by the 255 \<^verbatim>\<open>a\<close>.
\<close>

theorem long_last_segment_is_cut:
  "exec_args (fst (kobold_forkpty \<lparr>fp_pid = 0, fp_amaster = None\<rparr> True 0
       (''/bin/'' @ replicate 255 CHR ''a'') 24 80))
   \<noteq> [(''/bin/'' @ replicate 255 CHR ''a'', [CHR ''-'' # replicate 255 CHR ''a''])]"
proof -
  have h1: "fp_pid \<lparr>fp_pid = 0, fp_amaster = None\<rparr> = 0" by simp
  have n: "CHR ''/'' \<notin> set (replicate 255 CHR ''a'')" by simp
  have "strrchr (''/bin'' @ CHR ''/'' # replicate 255 CHR ''a'') CHR ''/''
          = Some (CHR ''/'' # replicate 255 CHR ''a'')"
    by (rule strrchr_last [OF n])
  then have s: "strrchr (''/bin/'' @ replicate 255 CHR ''a'') CHR ''/''
          = Some (CHR ''/'' # replicate 255 CHR ''a'')" by simp
  have l: "length (snprintf 256 (CHR ''-'' # replicate 255 CHR ''a'')) = 255"
    by (simp add: snprintf_def)
  have ne: "snprintf 256 (CHR ''-'' # replicate 255 CHR ''a'') \<noteq> CHR ''-'' # replicate 255 CHR ''a''"
    using l by (metis length_Cons length_replicate n_not_Suc_n)
  have e: "exec_args (fst (kobold_forkpty \<lparr>fp_pid = 0, fp_amaster = None\<rparr> True 0
       (''/bin/'' @ replicate 255 CHR ''a'') 24 80))
     = [(''/bin/'' @ replicate 255 CHR ''a'', [snprintf 256 (CHR ''-'' # replicate 255 CHR ''a'')])]"
    unfolding exec_args_child [OF h1] s by (simp only: option.case list.sel)
  show ?thesis unfolding e using ne by simp
qed

text \<open>
  Claim C10, as amended. In the child, for a \<^verbatim>\<open>shell_path\<close> without any \<^verbatim>\<open>/\<close>, the one
  argument of the \<^verbatim>\<open>execl\<close> is \<^verbatim>\<open>-\<close> followed by \<^verbatim>\<open>shell_path\<close>, cut to the 255 bytes
  that fit \<^verbatim>\<open>login_arg\<close>; for a \<^verbatim>\<open>shell_path\<close> of at most 254 bytes that is \<^verbatim>\<open>-\<close>
  followed by the whole of \<^verbatim>\<open>shell_path\<close>.
\<close>

theorem login_argv_without_slash:
  assumes "fp_pid fr = 0" and "CHR ''/'' \<notin> set shell_path"
  shows "exec_args (fst (kobold_forkpty fr ok a shell_path rows cols)) =
           [(shell_path, [take 255 (CHR ''-'' # shell_path)])]
    \<and> (length shell_path \<le> 254 \<longrightarrow>
         exec_args (fst (kobold_forkpty fr ok a shell_path rows cols)) =
           [(shell_path, [CHR ''-'' # shell_path])])"
  using strrchr_absent [OF assms(2)]
  by (simp add: exec_args_child [OF assms(1)] snprintf_def)

theorem login_argv_without_slash_witness:
  "fp_pid \<lparr>fp_pid = 0, fp_amaster = None\<rparr> = 0
   \<and> CHR ''/'' \<notin> set ''zsh''
   \<and> length ''zsh'' \<le> 254
   \<and> exec_args (fst (kobold_forkpty \<lparr>fp_pid = 0, fp_amaster = None\<rparr> True 0 ''zsh'' 24 80))
       = [(''zsh'', [''-zsh''])]"
proof -
  have h1: "fp_pid \<lparr>fp_pid = 0, fp_amaster = None\<rparr> = 0" by simp
  have h2: "CHR ''/'' \<notin> set ''zsh''" by simp
  show ?thesis
    using h1 h2 login_argv_without_slash [OF h1 h2, where ok = True and a = 0 and rows = 24 and cols = 80]
    by simp
qed

text \<open>
  Claim C10 as stated fails for a long name: for 255 times \<^verbatim>\<open>a\<close> (no \<^verbatim>\<open>/\<close>), the
  argument is not \<^verbatim>\<open>-\<close> followed by the whole path.
\<close>

theorem long_name_without_slash_is_cut:
  "CHR ''/'' \<notin> set (replicate 255 CHR ''a'')
   \<and> exec_args (fst (kobold_forkpty \<lparr>fp_pid = 0, fp_amaster = None\<rparr> True 0
       (replicate 255 CHR ''a'') 24 80))
   \<noteq> [(replicate 255 CHR ''a'', [CHR ''-'' # replicate 255 CHR ''a''])]"
proof -
  have h1: "fp_pid \<lparr>fp_pid = 0, fp_amaster = None\<rparr> = 0" by simp
  have n: "CHR ''/'' \<notin> set (replicate 255 CHR ''a'')" by simp
  have l: "length (snprintf 256 (CHR ''-'' # replicate 255 CHR ''a'')) = 255"
    by (simp add: snprintf_def)
  have ne: "snprintf 256 (CHR ''-'' # replicate 255 CHR ''a'') \<noteq> CHR ''-'' # replicate 255 CHR ''a''"
    using l by (metis length_Cons length_replicate n_not_Suc_n)
  have e: "exec_args (fst (kobold_forkpty \<lparr>fp_pid = 0, fp_amaster = None\<rparr> True 0
       (replicate 255 CHR ''a'') 24 80))
     = [(replicate 255 CHR ''a'', [snprintf 256 (CHR ''-'' # replicate 255 CHR ''a'')])]"
    unfolding exec_args_child [OF h1] strrchr_absent [OF n] by (simp only: option.case)
  show ?thesis unfolding e using n ne by simp
qed

subsection \<open>The mutex\<close>

lemma disciplined_op_calls: "disciplined False (op_calls op @ cs) = disciplined False cs"
  by (cases op) (simp_all add: kobold_forkpty_def kobold_pty_resize_def child_branch_def Let_def)

lemma disciplined_program: "disciplined False (concat (map op_calls ops))"
  by (induction ops) (simp_all add: disciplined_op_calls)

lemma lock_inv_start: "pty_mutex p = None \<Longrightarrow> lock_inv (start p opss)"
  by (simp add: lock_inv_def start_def disciplined_program)

lemma exec_call_other_mutex:
  "c \<noteq> Pthread_mutex_lock \<Longrightarrow> c \<noteq> Pthread_mutex_unlock \<Longrightarrow> exec_call i c p = Some p' \<Longrightarrow>
   pty_mutex p' = pty_mutex p"
  by (cases c) (auto split: if_splits option.splits)

lemma disciplined_other:
  "c \<noteq> Pthread_mutex_lock \<Longrightarrow> c \<noteq> Pthread_mutex_unlock \<Longrightarrow> disciplined h (c # cs) \<Longrightarrow>
   disciplined h cs"
  by (cases c) auto

lemma lock_inv_step:
  assumes "lock_inv s" and "step s s'"
  shows "lock_inv s'"
  using assms(2)
proof cases
  case (step_call i ts past c todo p p')
  have inv: "\<And>j. j < length ts \<Longrightarrow>
        count_list (fst (ts ! j)) Pthread_mutex_lock =
          count_list (fst (ts ! j)) Pthread_mutex_unlock + (if pty_mutex p = Some j then 1 else 0)
        \<and> disciplined (pty_mutex p = Some j) (snd (ts ! j))"
    using assms(1) step_call(1) by (simp add: lock_inv_def)
  have mine: "count_list past Pthread_mutex_lock =
          count_list past Pthread_mutex_unlock + (if pty_mutex p = Some i then 1 else 0)"
      "disciplined (pty_mutex p = Some i) (c # todo)"
    using inv [OF step_call(3)] step_call(4) by simp_all
  show ?thesis
  proof (cases "c = Pthread_mutex_lock")
    case True
    then have m: "pty_mutex p = None" "p' = p\<lparr>pty_mutex := Some i\<rparr>"
      using step_call(5) by (auto split: if_splits)
    show ?thesis
      unfolding lock_inv_def step_call(2)
    proof (intro allI impI)
      fix j assume "j < length (snd (p', ts[i := (past @ [c], todo)]))"
      then have j: "j < length ts" by simp
      show "count_list (fst (snd (p', ts[i := (past @ [c], todo)]) ! j)) Pthread_mutex_lock =
          count_list (fst (snd (p', ts[i := (past @ [c], todo)]) ! j)) Pthread_mutex_unlock
            + (if pty_mutex (fst (p', ts[i := (past @ [c], todo)])) = Some j then 1 else 0)
        \<and> disciplined (pty_mutex (fst (p', ts[i := (past @ [c], todo)])) = Some j)
             (snd (snd (p', ts[i := (past @ [c], todo)]) ! j))"
      proof (cases "j = i")
        case True
        then show ?thesis using mine m \<open>c = Pthread_mutex_lock\<close> step_call(3) by simp
      next
        case False
        then show ?thesis using inv [OF j] m j by simp
      qed
    qed
  next
    case notlock: False
    show ?thesis
    proof (cases "c = Pthread_mutex_unlock")
      case True
      then have m: "pty_mutex p = Some i" "p' = p\<lparr>pty_mutex := None\<rparr>"
        using step_call(5) by (auto split: if_splits)
      show ?thesis
        unfolding lock_inv_def step_call(2)
      proof (intro allI impI)
        fix j assume "j < length (snd (p', ts[i := (past @ [c], todo)]))"
        then have j: "j < length ts" by simp
        show "count_list (fst (snd (p', ts[i := (past @ [c], todo)]) ! j)) Pthread_mutex_lock =
            count_list (fst (snd (p', ts[i := (past @ [c], todo)]) ! j)) Pthread_mutex_unlock
              + (if pty_mutex (fst (p', ts[i := (past @ [c], todo)])) = Some j then 1 else 0)
          \<and> disciplined (pty_mutex (fst (p', ts[i := (past @ [c], todo)])) = Some j)
               (snd (snd (p', ts[i := (past @ [c], todo)]) ! j))"
        proof (cases "j = i")
          case True
          then show ?thesis using mine m \<open>c = Pthread_mutex_unlock\<close> step_call(3) by simp
        next
          case False
          then show ?thesis using inv [OF j] m j by simp
        qed
      qed
    next
      case False
      have m: "pty_mutex p' = pty_mutex p"
        using exec_call_other_mutex [OF notlock False step_call(5)] .
      have d: "disciplined (pty_mutex p = Some i) todo"
        using disciplined_other [OF notlock False mine(2)] .
      show ?thesis
        unfolding lock_inv_def step_call(2)
      proof (intro allI impI)
        fix j assume "j < length (snd (p', ts[i := (past @ [c], todo)]))"
        then have j: "j < length ts" by simp
        show "count_list (fst (snd (p', ts[i := (past @ [c], todo)]) ! j)) Pthread_mutex_lock =
            count_list (fst (snd (p', ts[i := (past @ [c], todo)]) ! j)) Pthread_mutex_unlock
              + (if pty_mutex (fst (p', ts[i := (past @ [c], todo)])) = Some j then 1 else 0)
          \<and> disciplined (pty_mutex (fst (p', ts[i := (past @ [c], todo)])) = Some j)
               (snd (snd (p', ts[i := (past @ [c], todo)]) ! j))"
        proof (cases "j = i")
          case True
          then show ?thesis using mine(1) d m notlock False step_call(3) by simp
        next
          case False
          then show ?thesis using inv [OF j] m j by simp
        qed
      qed
    qed
  qed
qed

lemma lock_inv_reachable:
  assumes "lock_inv s" and "rtranclp step s s'"
  shows "lock_inv s'"
  using assms(2,1) by (induction rule: rtranclp_induct) (auto intro: lock_inv_step)

lemma lock_inv_critical:
  assumes "lock_inv (p, ts)" and "i < length ts"
  shows "in_critical (ts ! i) = (pty_mutex p = Some i)"
  using assms by (simp add: lock_inv_def in_critical_def)

lemma disciplined_request: "kernel_request c \<Longrightarrow> disciplined h (c # cs) \<Longrightarrow> h"
  by (cases c) auto

lemma lock_inv_request:
  assumes "lock_inv (p, ts)" and "i < length ts" and "snd (ts ! i) = c # cs" and "kernel_request c"
  shows "pty_mutex p = Some i"
proof -
  have "disciplined (pty_mutex p = Some i) (snd (ts ! i))"
    using assms(1,2) by (simp add: lock_inv_def)
  then have "disciplined (pty_mutex p = Some i) (c # cs)"
    using assms(3) by simp
  then show ?thesis using disciplined_request [OF assms(4)] by blast
qed

lemma run_forkpty_child_whole:
  assumes "fp_pid fr = 0" "pty_mutex p = None"
  shows "\<exists>q. run t (fst (kobold_forkpty fr ok a shell_path rows cols)) p = Some q
           \<and> pty_mutex q = None"
  by (subst after_before_exec_child [OF assms(1)])
     (simp add: run_append run_before_exec_child [OF assms] assms(2))

lemma run_forkpty_releases:
  assumes "pty_mutex p = None"
  shows "\<exists>q. run t (fst (kobold_forkpty fr ok a shell_path rows cols)) p = Some q
           \<and> pty_mutex q = None"
proof -
  consider "fp_pid fr < 0" | "fp_pid fr = 0" | "0 < fp_pid fr" by linarith
  then show ?thesis
  proof cases
    case 1
    then show ?thesis using run_forkpty_failed [OF assms 1] assms by simp
  next
    case 2
    then show ?thesis using run_forkpty_child_whole [OF 2 assms] by simp
  next
    case 3
    then show ?thesis using run_forkpty_parent [OF assms 3] assms
      by (simp split: option.split)
  qed
qed

lemma run_resize_releases:
  assumes "pty_mutex p = None"
  shows "\<exists>q. run t (fst (kobold_pty_resize r fd rows cols)) p = Some q \<and> pty_mutex q = None"
  using run_resize [OF assms] assms by simp

lemma count_lock_forkpty:
  "count_list (fst (kobold_forkpty fr ok a shell_path rows cols)) Pthread_mutex_lock = 1
   \<and> count_list (fst (kobold_forkpty fr ok a shell_path rows cols)) Pthread_mutex_unlock = 1"
  by (simp add: kobold_forkpty_def child_branch_def Let_def)

lemma count_lock_resize:
  "count_list (fst (kobold_pty_resize r fd rows cols)) Pthread_mutex_lock = 1
   \<and> count_list (fst (kobold_pty_resize r fd rows cols)) Pthread_mutex_unlock = 1"
  by (simp add: kobold_pty_resize_def Let_def)

text \<open>
  Claim C7. Threads of the host process run any operations of the bridge
  (\<^verbatim>\<open>kobold_forkpty\<close> as the parent sees it, \<^verbatim>\<open>kobold_pty_resize\<close>), interleaved call by call
  in any order, starting with \<^verbatim>\<open>pty_mutex\<close> free. Then in every state they can reach at
  most one thread is between its lock and its unlock, that thread is the owner of the
  mutex, and a thread about to make a request to the kernel (\<^verbatim>\<open>forkpty\<close>, the size
  \<^verbatim>\<open>ioctl\<close>) is that thread: the requests are serialized. And every path of either
  function (failure, parent, child with the exec succeeding or failing; request failing
  or not) locks once, unlocks once, never waits on itself and ends with the mutex
  released.
\<close>

theorem pty_mutex_serializes:
  assumes "pty_mutex p = None" and "list_all (list_all host_op) opss"
    and "rtranclp step (start p opss) (p', ts)"
  shows "(\<forall>i<length ts. \<forall>j<length ts. in_critical (ts ! i) \<and> in_critical (ts ! j) \<longrightarrow> i = j)
    \<and> (\<forall>i<length ts. in_critical (ts ! i) = (pty_mutex p' = Some i))
    \<and> (\<forall>i<length ts. \<forall>c cs. snd (ts ! i) = c # cs \<and> kernel_request c \<longrightarrow> in_critical (ts ! i))
    \<and> (\<exists>q. run t (fst (kobold_forkpty fr ok a shell_path rows cols)) p = Some q
           \<and> pty_mutex q = None)
    \<and> (\<exists>q. run t (fst (kobold_pty_resize r fd rows cols)) p = Some q \<and> pty_mutex q = None)
    \<and> count_list (fst (kobold_forkpty fr ok a shell_path rows cols)) Pthread_mutex_lock = 1
    \<and> count_list (fst (kobold_forkpty fr ok a shell_path rows cols)) Pthread_mutex_unlock = 1
    \<and> count_list (fst (kobold_pty_resize r fd rows cols)) Pthread_mutex_lock = 1
    \<and> count_list (fst (kobold_pty_resize r fd rows cols)) Pthread_mutex_unlock = 1"
proof -
  have inv: "lock_inv (p', ts)"
    using lock_inv_reachable [OF lock_inv_start [OF assms(1)] assms(3)] .
  have crit: "\<And>i. i < length ts \<Longrightarrow> in_critical (ts ! i) = (pty_mutex p' = Some i)"
    using lock_inv_critical [OF inv] .
  have a: "\<forall>i<length ts. \<forall>j<length ts. in_critical (ts ! i) \<and> in_critical (ts ! j) \<longrightarrow> i = j"
    using crit by auto
  have b: "\<forall>i<length ts. in_critical (ts ! i) = (pty_mutex p' = Some i)"
    using crit by blast
  have c: "\<forall>i<length ts. \<forall>c cs. snd (ts ! i) = c # cs \<and> kernel_request c \<longrightarrow> in_critical (ts ! i)"
    using crit lock_inv_request [OF inv] by blast
  show ?thesis
    using a b c run_forkpty_releases [OF assms(1), of t fr ok a shell_path rows cols]
      run_resize_releases [OF assms(1), of t r fd rows cols]
      count_lock_forkpty [of fr ok a shell_path rows cols] count_lock_resize [of r fd rows cols]
    by blast
qed

lemma two_threads_one_locked:
  "rtranclp step
     (start host_at_start
        [[Resize 0 5 30 100], [Spawn \<lparr>fp_pid = 4711, fp_amaster = Some 6\<rparr> 0 ''/bin/zsh'' 24 80]])
     (host_at_start\<lparr>pty_mutex := Some 1\<rparr>,
      [([], fst (kobold_pty_resize 0 5 30 100)),
       ([Pthread_mutex_lock],
        tl (fst (kobold_forkpty \<lparr>fp_pid = 4711, fp_amaster = Some 6\<rparr> False 0 ''/bin/zsh'' 24 80)))])"
proof -
  let ?r = "fst (kobold_pty_resize 0 5 30 100)"
  let ?f = "fst (kobold_forkpty \<lparr>fp_pid = 4711, fp_amaster = Some 6\<rparr> False 0 ''/bin/zsh'' 24 80)"
  have f: "?f = Pthread_mutex_lock # tl ?f"
    by (simp add: kobold_forkpty_def Let_def)
  have s: "start host_at_start
        [[Resize 0 5 30 100], [Spawn \<lparr>fp_pid = 4711, fp_amaster = Some 6\<rparr> 0 ''/bin/zsh'' 24 80]]
      = (host_at_start, [([], ?r), ([], ?f)])"
    by (simp add: start_def)
  have e: "exec_call 1 Pthread_mutex_lock host_at_start = Some (host_at_start\<lparr>pty_mutex := Some 1\<rparr>)"
    by (simp add: host_at_start_def)
  have n: "[([], ?r), ([], ?f)] ! 1 = ([], Pthread_mutex_lock # tl ?f)"
    using f by simp
  have "step (host_at_start, [([], ?r), ([], ?f)])
          (host_at_start\<lparr>pty_mutex := Some 1\<rparr>,
           [([], ?r), ([], ?f)][1 := ([] @ [Pthread_mutex_lock], tl ?f)])"
    by (rule step_call [OF _ n e]) simp
  then have "step (host_at_start, [([], ?r), ([], ?f)])
          (host_at_start\<lparr>pty_mutex := Some 1\<rparr>, [([], ?r), ([Pthread_mutex_lock], tl ?f)])"
    by simp
  then show ?thesis unfolding s by (rule r_into_rtranclp)
qed

theorem pty_mutex_serializes_witness:
  "pty_mutex host_at_start = None
   \<and> list_all (list_all host_op)
        [[Resize 0 5 30 100], [Spawn \<lparr>fp_pid = 4711, fp_amaster = Some 6\<rparr> 0 ''/bin/zsh'' 24 80]]
   \<and> rtranclp step
        (start host_at_start
          [[Resize 0 5 30 100], [Spawn \<lparr>fp_pid = 4711, fp_amaster = Some 6\<rparr> 0 ''/bin/zsh'' 24 80]])
        (host_at_start\<lparr>pty_mutex := Some 1\<rparr>,
         [([], fst (kobold_pty_resize 0 5 30 100)),
          ([Pthread_mutex_lock],
           tl (fst (kobold_forkpty \<lparr>fp_pid = 4711, fp_amaster = Some 6\<rparr> False 0 ''/bin/zsh'' 24 80)))])
   \<and> in_critical ([Pthread_mutex_lock],
           tl (fst (kobold_forkpty \<lparr>fp_pid = 4711, fp_amaster = Some 6\<rparr> False 0 ''/bin/zsh'' 24 80)))
   \<and> \<not> in_critical ([], fst (kobold_pty_resize 0 5 30 100))
   \<and> (\<exists>q. run 0 (fst (kobold_forkpty \<lparr>fp_pid = 0, fp_amaster = None\<rparr> False 0 ''/bin/zsh'' 24 80))
              host_at_start = Some q \<and> pty_mutex q = None)
   \<and> (\<exists>q. run 0 (fst (kobold_pty_resize (- 1) 5 24 80)) host_at_start = Some q
          \<and> pty_mutex q = None)"
proof -
  let ?opss = "[[Resize 0 5 30 100], [Spawn \<lparr>fp_pid = 4711, fp_amaster = Some 6\<rparr> 0 ''/bin/zsh'' 24 80]]"
  let ?ts = "[([], fst (kobold_pty_resize 0 5 30 100)),
          ([Pthread_mutex_lock],
           tl (fst (kobold_forkpty \<lparr>fp_pid = 4711, fp_amaster = Some 6\<rparr> False 0 ''/bin/zsh'' 24 80)))]"
  have h1: "pty_mutex host_at_start = None" by (simp add: host_at_start_def)
  have h2: "list_all (list_all host_op) ?opss" by simp
  note h3 = two_threads_one_locked
  note th = pty_mutex_serializes [OF h1 h2 h3, where t = 0
      and fr = "\<lparr>fp_pid = 0, fp_amaster = None\<rparr>" and ok = False and a = 0
      and shell_path = "''/bin/zsh''" and rows = 24 and cols = 80 and r = "- 1" and fd = 5]
  have b: "\<forall>i<length ?ts. in_critical (?ts ! i)
             = (pty_mutex (host_at_start\<lparr>pty_mutex := Some 1\<rparr>) = Some i)"
    using th by blast
  have c1: "in_critical (?ts ! 1)" using b [rule_format, of 1] by simp
  have c0: "\<not> in_critical (?ts ! 0)" using b [rule_format, of 0] by simp
  have q1: "\<exists>q. run 0 (fst (kobold_forkpty \<lparr>fp_pid = 0, fp_amaster = None\<rparr> False 0 ''/bin/zsh'' 24 80))
              host_at_start = Some q \<and> pty_mutex q = None"
    using th by blast
  have q2: "\<exists>q. run 0 (fst (kobold_pty_resize (- 1) 5 24 80)) host_at_start = Some q
          \<and> pty_mutex q = None"
    using th by blast
  show ?thesis
    using h1 h2 h3 c1 c0 q1 q2 by simp
qed

end
